theory Spec2Isabelle
  imports Complex_Main "HOL-Library.AList"
begin

section \<open>Race prediction from practice and qualifying data (prediction.py)\<close>

text \<open>
  A shallow embedding of \<^verbatim>\<open>prediction.py\<close>. Conventions:
  \<^item> Python floats and pandas durations (converted by \<^verbatim>\<open>total_seconds()\<close>) are exact
    reals; rounding of binary floating point is not modelled.
  \<^item> A pandas cell that may be NaN, NaT or None is a \<open>real option\<close>; \<^verbatim>\<open>pd.notna\<close> is
    \<open>\<noteq> None\<close>.
  \<^item> A DataFrame built from a list of dicts is the list of its rows, in order; the
    DataFrame without rows built by \<^verbatim>\<open>pd.DataFrame([])\<close> (which has no columns) is \<open>[]\<close>.
  \<^item> A Python call either raises or returns: its result is \<open>py_error + 'a\<close>, with
    \<open>Inl\<close> for the exception.
\<close>

subsection \<open>Exceptions\<close>

datatype py_error =
    KeyError string
  | ValueError string
  | IndexError string
  | ZeroDivisionError string
  | OtherError string

text \<open>\<^verbatim>\<open>str(e)\<close>, as interpolated into the diagnostics; a KeyError quotes its key.\<close>

fun py_str :: "py_error \<Rightarrow> string" where
  "py_str (KeyError k) = [CHR 0x27] @ k @ [CHR 0x27]"
| "py_str (ValueError m) = m"
| "py_str (IndexError m) = m"
| "py_str (ZeroDivisionError m) = m"
| "py_str (OtherError m) = m"

subsection \<open>Data model\<close>

text \<open>One row of \<^verbatim>\<open>session.laps\<close>: the columns the program reads.\<close>

record lap =
  lap_Driver :: string
  LapTime :: "real option"

text \<open>
  One row of \<^verbatim>\<open>qualifying.results\<close>. The program tests the three stage times with
  \<^verbatim>\<open>pd.notna\<close> and reads \<^verbatim>\<open>Position\<close> without a test (line 62): the position is a
  number here, and a missing position is outside the model.
\<close>

record result_row =
  Abbreviation :: string
  Position :: real
  Q1 :: "real option"
  Q2 :: "real option"
  Q3 :: "real option"

text \<open>What \<^verbatim>\<open>session.load()\<close> makes available, or the exception it raises.\<close>

record session_data =
  laps :: "lap list"
  results :: "result_row list"

type_synonym session = "py_error + session_data"

text \<open>
  The external provider: \<^verbatim>\<open>fastf1.get_session(year, gp_name, session_name)\<close> raises or
  returns a session object; the object is given by the outcome of its \<^verbatim>\<open>load()\<close>.
\<close>

type_synonym provider = "nat \<Rightarrow> string \<Rightarrow> string \<Rightarrow> py_error + session"

text \<open>The dict appended to \<^verbatim>\<open>driver_data\<close> in \<^verbatim>\<open>get_session_data\<close>.\<close>

record session_summary =
  Driver :: string
  FastestLap :: "real option"
  AverageLap :: "real option"
  Consistency :: "real option"
  TotalLaps :: nat
  Session :: string

text \<open>The dict appended to \<^verbatim>\<open>qual_data\<close> in \<^verbatim>\<open>get_qualifying_positions\<close>.\<close>

record qualifying_row =
  q_Driver :: string
  QualifyingPosition :: real
  Q1Time :: "real option"
  Q2Time :: "real option"
  Q3Time :: "real option"

text \<open>A value of the dict \<^verbatim>\<open>driver_scores\<close>.\<close>

record profile =
  AvgFastestLap :: real
  p_Consistency :: real
  p_TotalLaps :: nat
  PracticeScore :: real

text \<open>The dict appended to \<^verbatim>\<open>final_scores\<close>.\<close>

record final_row =
  f_Driver :: string
  f_QualifyingPosition :: real
  f_PracticeScore :: real
  FinalScore :: real
  f_AvgFastestLap :: real
  f_Consistency :: real

subsection \<open>pandas and numpy operations used by the program\<close>

text \<open>\<^verbatim>\<open>Series.unique()\<close>: the distinct values in order of first appearance.\<close>

fun unique_from :: "'a list \<Rightarrow> 'a list \<Rightarrow> 'a list" where
  "unique_from seen [] = []"
| "unique_from seen (x # xs) =
     (if x \<in> set seen then unique_from seen xs else x # unique_from (x # seen) xs)"

definition unique :: "'a list \<Rightarrow> 'a list" where
  "unique xs = unique_from [] xs"

text \<open>The reductions of a column skip missing values (\<^verbatim>\<open>skipna=True\<close>).\<close>

definition dropna :: "real option list \<Rightarrow> real list" where
  "dropna col = List.map_filter (\<lambda>c. c) col"

definition series_min :: "real option list \<Rightarrow> real option" where
  "series_min col =
     (let xs = dropna col in if xs = [] then None else Some (Min (set xs)))"

definition series_mean :: "real option list \<Rightarrow> real option" where
  "series_mean col =
     (let xs = dropna col in
      if xs = [] then None else Some (sum_list xs / real (length xs)))"

text \<open>\<^verbatim>\<open>Series.std()\<close> has \<^verbatim>\<open>ddof=1\<close>: missing for fewer than two values.\<close>

definition series_std :: "real option list \<Rightarrow> real option" where
  "series_std col =
     (let xs = dropna col; n = length xs; m = sum_list xs / real n in
      if n < 2 then None
      else Some (sqrt (sum_list (map (\<lambda>x. (x - m)\<^sup>2) xs) / real (n - 1))))"

subsection \<open>\<^verbatim>\<open>get_session_data\<close>\<close>

text \<open>The body of the loop over \<^verbatim>\<open>valid_laps['Driver'].unique()\<close> (lines 25-40).\<close>

definition driver_row :: "string \<Rightarrow> lap list \<Rightarrow> string \<Rightarrow> session_summary list" where
  "driver_row session_name valid_laps driver =
     (let driver_laps = filter (\<lambda>l. lap_Driver l = driver) valid_laps in
      if length driver_laps > 0 then
        [\<lparr>Driver = driver,
          FastestLap = series_min (map LapTime driver_laps),
          AverageLap = series_mean (map LapTime driver_laps),
          Consistency = series_std (map LapTime driver_laps),
          TotalLaps = length driver_laps,
          Session = session_name\<rparr>]
      else [])"

text \<open>Lines 18-42: from \<^verbatim>\<open>session.laps\<close> to the returned DataFrame.\<close>

definition summarize :: "string \<Rightarrow> lap list \<Rightarrow> session_summary list" where
  "summarize session_name lap_times =
     (let valid_laps = filter (\<lambda>l. LapTime l \<noteq> None) lap_times in
      concat (map (driver_row session_name valid_laps) (unique (map lap_Driver valid_laps))))"

text \<open>Lines 15-16: \<^verbatim>\<open>get_session\<close> followed by \<^verbatim>\<open>load\<close>.\<close>

definition load_session :: "provider \<Rightarrow> nat \<Rightarrow> string \<Rightarrow> string \<Rightarrow> py_error + session_data" where
  "load_session fastf1 year gp_name session_name =
     (case fastf1 year gp_name session_name of
        Inl e \<Rightarrow> Inl e
      | Inr session \<Rightarrow> session)"

text \<open>
  The function returns the lines it printed and the DataFrame. The \<^verbatim>\<open>try\<close> block spans
  the whole body; \<^verbatim>\<open>except Exception\<close> prints the diagnostic and returns
  \<^verbatim>\<open>pd.DataFrame()\<close>.
\<close>

definition get_session_data ::
  "provider \<Rightarrow> nat \<Rightarrow> string \<Rightarrow> string \<Rightarrow> py_error + (string list \<times> session_summary list)" where
  "get_session_data fastf1 year gp_name session_name =
     (case (case load_session fastf1 year gp_name session_name of
              Inl e \<Rightarrow> Inl e
            | Inr session \<Rightarrow> Inr (summarize session_name (laps session))) of
        Inr df \<Rightarrow> Inr ([], df)
      | Inl e \<Rightarrow> Inr ([''Error loading '' @ session_name @ '': '' @ py_str e], []))"

subsection \<open>\<^verbatim>\<open>get_qualifying_positions\<close>\<close>

definition qual_dict :: "result_row \<Rightarrow> qualifying_row" where
  "qual_dict row =
     \<lparr>q_Driver = Abbreviation row,
      QualifyingPosition = Position row,
      Q1Time = Q1 row,
      Q2Time = Q2 row,
      Q3Time = Q3 row\<rparr>"

definition get_qualifying_positions ::
  "provider \<Rightarrow> nat \<Rightarrow> string \<Rightarrow> py_error + (string list \<times> qualifying_row list)" where
  "get_qualifying_positions fastf1 year gp_name =
     (case (case load_session fastf1 year gp_name ''Q'' of
              Inl e \<Rightarrow> Inl e
            | Inr qualifying \<Rightarrow> Inr (map qual_dict (results qualifying))) of
        Inr df \<Rightarrow> Inr ([], df)
      | Inl e \<Rightarrow> Inr ([''Error loading qualifying: '' @ py_str e], []))"

subsection \<open>\<^verbatim>\<open>calculate_prediction_score\<close>: per-driver practice profile\<close>

definition session_weights :: "(string \<times> real) list" where
  "session_weights = [(''FP1'', 0.15), (''FP2'', 0.25), (''FP3'', 0.35), (''Sprint'', 0.25)]"

text \<open>\<^verbatim>\<open>session_weights.get(name, 0.2)\<close>.\<close>

definition session_weight :: "string \<Rightarrow> real" where
  "session_weight name = (case map_of session_weights name of Some w \<Rightarrow> w | None \<Rightarrow> 0.2)"

text \<open>
  Lines 89-92: the loop appending to \<^verbatim>\<open>fastest_laps\<close> and \<^verbatim>\<open>weights\<close>; the pair of
  lists is the loop state.
\<close>

fun collect_fastest ::
  "session_summary list \<Rightarrow> real list \<times> real list \<Rightarrow> real list \<times> real list" where
  "collect_fastest [] acc = acc"
| "collect_fastest (row # rows) (fastest_laps, weights) =
     (if FastestLap row \<noteq> None
      then collect_fastest rows
             (fastest_laps @ [the (FastestLap row)], weights @ [session_weight (Session row)])
      else collect_fastest rows (fastest_laps, weights))"

text \<open>
  \<^verbatim>\<open>np.average(a, weights=w)\<close> for lists of equal length; numpy raises
  ZeroDivisionError when the weights sum to zero.
\<close>

definition np_average :: "real list \<Rightarrow> real list \<Rightarrow> py_error + real" where
  "np_average a w =
     (if sum_list w = 0
      then Inl (ZeroDivisionError ''Weights sum to zero, can't be normalized'')
      else Inr (sum_list (map (\<lambda>(x, y). x * y) (zip a w)) / sum_list w))"

definition np_mean :: "real list \<Rightarrow> real" where
  "np_mean a = sum_list a / real (length a)"

text \<open>Lines 97-98.\<close>

definition avg_consistency_of :: "session_summary list \<Rightarrow> real" where
  "avg_consistency_of driver_practice =
     (let consistency_scores =
            map (\<lambda>row. the (Consistency row))
              (filter (\<lambda>row. Consistency row \<noteq> None) driver_practice)
      in if consistency_scores \<noteq> [] then np_mean consistency_scores else 10.0)"

text \<open>
  Lines 82-107: the loop over \<^verbatim>\<open>all_practice['Driver'].unique()\<close>. The dict
  \<^verbatim>\<open>driver_scores\<close> is an association list in insertion order; an assignment to a key
  is \<open>AList.update\<close>.
\<close>

fun build_scores ::
  "string list \<Rightarrow> session_summary list \<Rightarrow> (string \<times> profile) list
     \<Rightarrow> py_error + (string \<times> profile) list" where
  "build_scores [] all_practice driver_scores = Inr driver_scores"
| "build_scores (driver # drivers) all_practice driver_scores =
     (let driver_practice = filter (\<lambda>row. Driver row = driver) all_practice;
          (fastest_laps, weights) = collect_fastest driver_practice ([], [])
      in if fastest_laps \<noteq> [] then
           (case np_average fastest_laps weights of
              Inl e \<Rightarrow> Inl e
            | Inr avg_fastest \<Rightarrow>
                build_scores drivers all_practice
                  (AList.update driver
                     \<lparr>AvgFastestLap = avg_fastest,
                      p_Consistency = avg_consistency_of driver_practice,
                      p_TotalLaps = sum_list (map TotalLaps driver_practice),
                      PracticeScore = 0\<rparr>
                     driver_scores))
         else build_scores drivers all_practice driver_scores)"

subsection \<open>\<^verbatim>\<open>calculate_prediction_score\<close>: practice score\<close>

text \<open>Lines 113-117, for one entry; a float is falsy exactly when it is zero.\<close>

definition practice_score :: "real \<Rightarrow> profile \<Rightarrow> real" where
  "practice_score fastest_overall data =
     (let lap_time_score = (AvgFastestLap data - fastest_overall) * 1000;
          consistency_score =
            (if p_Consistency data \<noteq> 0 then p_Consistency data * 100 else 500);
          reliability_score = min (real (p_TotalLaps data) / 50) 1.0
      in lap_time_score + consistency_score - reliability_score * 100)"

text \<open>Lines 109-117.\<close>

definition score_profiles :: "(string \<times> profile) list \<Rightarrow> (string \<times> profile) list" where
  "score_profiles driver_scores =
     (if driver_scores \<noteq> [] then
        (let fastest_overall = Min (set (map (\<lambda>(driver, data). AvgFastestLap data) driver_scores))
         in map (\<lambda>(driver, data).
                   (driver, data\<lparr>PracticeScore := practice_score fastest_overall data\<rparr>))
              driver_scores)
      else driver_scores)"

subsection \<open>\<^verbatim>\<open>calculate_prediction_score\<close>: final ranking\<close>

text \<open>Lines 121-137: the loop over the qualifying rows.\<close>

fun final_scores_loop ::
  "(string \<times> profile) list \<Rightarrow> qualifying_row list \<Rightarrow> final_row list \<Rightarrow> final_row list" where
  "final_scores_loop driver_scores [] final_scores = final_scores"
| "final_scores_loop driver_scores (qual_row # rows) final_scores =
     (let driver = q_Driver qual_row in
      case map_of driver_scores driver of
        Some data \<Rightarrow>
          (let practice_score = PracticeScore data;
               qualifying_pos = QualifyingPosition qual_row;
               final_score = (qualifying_pos * 0.6) + (practice_score * 0.4 / 100)
           in final_scores_loop driver_scores rows
                (final_scores @
                 [\<lparr>f_Driver = driver,
                   f_QualifyingPosition = qualifying_pos,
                   f_PracticeScore = practice_score,
                   FinalScore = final_score,
                   f_AvgFastestLap = AvgFastestLap data,
                   f_Consistency = p_Consistency data\<rparr>]))
      | None \<Rightarrow> final_scores_loop driver_scores rows final_scores)"

text \<open>
  The value of \<^verbatim>\<open>driver_scores\<close> when line 119 is reached. \<^verbatim>\<open>pd.concat\<close> raises
  ValueError on an empty list; when every DataFrame of the list is empty the result has
  no column \<^verbatim>\<open>Driver\<close> and line 82 raises KeyError.
\<close>

definition driver_scores_of ::
  "session_summary list list \<Rightarrow> py_error + (string \<times> profile) list" where
  "driver_scores_of practice_data =
     (if practice_data = [] then Inl (ValueError ''No objects to concatenate'')
      else
        (let all_practice = concat practice_data in
         if all_practice = [] then Inl (KeyError ''Driver'')
         else
           (case build_scores (unique (map Driver all_practice)) all_practice [] of
              Inl e \<Rightarrow> Inl e
            | Inr driver_scores \<Rightarrow> Inr (score_profiles driver_scores))))"

text \<open>
  Line 139: \<^verbatim>\<open>pd.DataFrame(final_scores).sort_values('FinalScore')\<close>. A DataFrame built
  from the empty list has no columns, so \<^verbatim>\<open>sort_values\<close> raises KeyError on it.
  Otherwise the rows are sorted ascending on the column; the order of rows with equal
  keys depends on the sorting algorithm, and the stable \<open>sort_key\<close> stands for it here.
\<close>

definition sort_values_FinalScore :: "final_row list \<Rightarrow> py_error + final_row list" where
  "sort_values_FinalScore df =
     (if df = [] then Inl (KeyError ''FinalScore'') else Inr (sort_key FinalScore df))"

definition calculate_prediction_score ::
  "session_summary list list \<Rightarrow> qualifying_row list \<Rightarrow> py_error + final_row list" where
  "calculate_prediction_score practice_data qualifying_data =
     (case driver_scores_of practice_data of
        Inl e \<Rightarrow> Inl e
      | Inr driver_scores \<Rightarrow>
          sort_values_FinalScore (final_scores_loop driver_scores qualifying_data []))"

subsection \<open>\<^verbatim>\<open>predict_race_winner\<close>\<close>

text \<open>
  Console output of this function is not modelled; the expressions it evaluates for
  printing are, where their evaluation can raise. The test \<^verbatim>\<open>not gp_name\<close> holds for
  \<^verbatim>\<open>None\<close> and for the empty string.
\<close>

text \<open>\<^verbatim>\<open>df.iloc[i]\<close> for a non-negative position.\<close>

definition iloc :: "'a list \<Rightarrow> nat \<Rightarrow> py_error + 'a" where
  "iloc df i =
     (if i < length df then Inr (df ! i)
      else Inl (IndexError ''single positional indexer is out-of-bounds''))"

text \<open>Lines 153-162: the first name for which \<^verbatim>\<open>get_session\<close> does not raise.\<close>

fun find_gp_name :: "provider \<Rightarrow> nat \<Rightarrow> string list \<Rightarrow> string option" where
  "find_gp_name fastf1 year [] = None"
| "find_gp_name fastf1 year (name # names) =
     (case fastf1 year name ''FP1'' of
        Inr test_session \<Rightarrow> Some name
      | Inl e \<Rightarrow> find_gp_name fastf1 year names)"

text \<open>Lines 180-187: the non-empty DataFrames of the practice sessions, in order.\<close>

fun load_practice ::
  "provider \<Rightarrow> nat \<Rightarrow> string \<Rightarrow> string list \<Rightarrow> session_summary list list
     \<Rightarrow> py_error + session_summary list list" where
  "load_practice fastf1 year gp_name [] practice_data = Inr practice_data"
| "load_practice fastf1 year gp_name (session # sessions) practice_data =
     (case get_session_data fastf1 year gp_name session of
        Inl e \<Rightarrow> Inl e
      | Inr (out, data) \<Rightarrow>
          if data \<noteq> [] then load_practice fastf1 year gp_name sessions (practice_data @ [data])
          else load_practice fastf1 year gp_name sessions practice_data)"

text \<open>
  Lines 208-241: the report. Line 227 reads row 1 and line 233 reads row 2 of the
  ranking; line 236 reads row 0 of every practice DataFrame.
\<close>

fun first_sessions :: "session_summary list list \<Rightarrow> py_error + string list" where
  "first_sessions [] = Inr []"
| "first_sessions (data # rest) =
     (case iloc (map Session data) 0 of
        Inl e \<Rightarrow> Inl e
      | Inr s \<Rightarrow> (case first_sessions rest of Inl e \<Rightarrow> Inl e | Inr ss \<Rightarrow> Inr (s # ss)))"

definition report ::
  "final_row list \<Rightarrow> session_summary list list \<Rightarrow> py_error + final_row list option" where
  "report predictions practice_data =
     (case iloc predictions 0 of
        Inl e \<Rightarrow> Inl e
      | Inr winner \<Rightarrow>
     (case iloc predictions 1 of
        Inl e \<Rightarrow> Inl e
      | Inr second \<Rightarrow>
     (case iloc predictions 2 of
        Inl e \<Rightarrow> Inl e
      | Inr third \<Rightarrow>
     (case first_sessions practice_data of
        Inl e \<Rightarrow> Inl e
      | Inr names \<Rightarrow> Inr (Some predictions)))))"

definition predict_race_winner :: "provider \<Rightarrow> py_error + final_row list option" where
  "predict_race_winner fastf1 =
     (let year = 2025; possible_gp_names = [''British Grand Prix''] in
      case find_gp_name fastf1 year possible_gp_names of
        None \<Rightarrow> Inr None
      | Some gp_name \<Rightarrow>
          if gp_name = [] then Inr None
          else
     (case load_practice fastf1 year gp_name [''FP1'', ''FP2'', ''FP3''] [] of
        Inl e \<Rightarrow> Inl e
      | Inr practice_data \<Rightarrow>
     (case get_qualifying_positions fastf1 year gp_name of
        Inl e \<Rightarrow> Inl e
      | Inr (out, qualifying_data) \<Rightarrow>
          if practice_data = [] \<or> qualifying_data = [] then Inr None
          else
            (case calculate_prediction_score practice_data qualifying_data of
               Inl e \<Rightarrow> Inl e
             | Inr predictions \<Rightarrow>
                 if predictions = [] then Inr None
                 else report predictions practice_data))))"

subsection \<open>Vocabulary of the statements\<close>

text \<open>The valid lap durations of a driver: the laps with a defined duration, in order.\<close>

definition valid_durations :: "lap list \<Rightarrow> string \<Rightarrow> real list" where
  "valid_durations lap_times d =
     map (\<lambda>l. the (LapTime l)) (filter (\<lambda>l. lap_Driver l = d \<and> LapTime l \<noteq> None) lap_times)"

text \<open>The closed form of the row that \<open>summarize\<close> builds for a driver with a valid lap.\<close>

definition summary_of :: "string \<Rightarrow> lap list \<Rightarrow> string \<Rightarrow> session_summary" where
  "summary_of session_name lap_times d =
     (let ts = valid_durations lap_times d; n = length ts; m = sum_list ts / real n in
      \<lparr>Driver = d,
       FastestLap = Some (Min (set ts)),
       AverageLap = Some m,
       Consistency =
         (if n < 2 then None else Some (sqrt (sum_list (map (\<lambda>x. (x - m)\<^sup>2) ts) / real (n - 1)))),
       TotalLaps = n,
       Session = session_name\<rparr>)"

text \<open>The rows of a driver whose fastest lap is defined: the sessions that enter the
  weighted average.\<close>

definition fastest_rows :: "session_summary list \<Rightarrow> string \<Rightarrow> session_summary list" where
  "fastest_rows all_practice d =
     filter (\<lambda>row. Driver row = d \<and> FastestLap row \<noteq> None) all_practice"

text \<open>The weighted mean of the fastest laps of such rows, with the session weights.\<close>

definition weighted_average :: "session_summary list \<Rightarrow> real" where
  "weighted_average rows =
     sum_list (map (\<lambda>row. the (FastestLap row) * session_weight (Session row)) rows) /
     sum_list (map (\<lambda>row. session_weight (Session row)) rows)"

text \<open>The closed form of the value stored in \<^verbatim>\<open>driver_scores\<close> by the first loop.\<close>

definition initial_profile :: "session_summary list \<Rightarrow> string \<Rightarrow> profile" where
  "initial_profile all_practice d =
     \<lparr>AvgFastestLap = weighted_average (fastest_rows all_practice d),
      p_Consistency = avg_consistency_of (filter (\<lambda>row. Driver row = d) all_practice),
      p_TotalLaps = sum_list (map TotalLaps (filter (\<lambda>row. Driver row = d) all_practice)),
      PracticeScore = 0\<rparr>"

text \<open>The minimum of \<^verbatim>\<open>AvgFastestLap\<close> over the profiles (line 110).\<close>

definition fastest_overall :: "(string \<times> profile) list \<Rightarrow> real" where
  "fastest_overall driver_scores =
     Min (set (map (\<lambda>(driver, data). AvgFastestLap data) driver_scores))"

text \<open>The rows that one qualifying row contributes to \<^verbatim>\<open>final_scores\<close>.\<close>

definition final_entry :: "(string \<times> profile) list \<Rightarrow> qualifying_row \<Rightarrow> final_row list" where
  "final_entry driver_scores q =
     (case map_of driver_scores (q_Driver q) of
        Some data \<Rightarrow>
          [\<lparr>f_Driver = q_Driver q,
            f_QualifyingPosition = QualifyingPosition q,
            f_PracticeScore = PracticeScore data,
            FinalScore = QualifyingPosition q * 0.6 + PracticeScore data * 0.4 / 100,
            f_AvgFastestLap = AvgFastestLap data,
            f_Consistency = p_Consistency data\<rparr>]
      | None \<Rightarrow> [])"

subsection \<open>Concrete inputs\<close>

definition example_laps :: "lap list" where
  "example_laps =
     [\<lparr>lap_Driver = ''A'', LapTime = Some 88\<rparr>,
      \<lparr>lap_Driver = ''B'', LapTime = None\<rparr>,
      \<lparr>lap_Driver = ''A'', LapTime = Some 90\<rparr>,
      \<lparr>lap_Driver = ''C'', LapTime = Some 91\<rparr>,
      \<lparr>lap_Driver = ''A'', LapTime = Some 92\<rparr>]"

definition failing_provider :: provider where
  "failing_provider year gp_name session_name =
     (if session_name = ''FP1'' then Inl (OtherError ''no network'')
      else Inr (Inl (KeyError ''Position'')))"

text \<open>Shorthands for a summary row and a qualifying row.\<close>

definition practice_row ::
  "string \<Rightarrow> string \<Rightarrow> real option \<Rightarrow> real option \<Rightarrow> nat \<Rightarrow> session_summary" where
  "practice_row d s fastest consistency n =
     \<lparr>Driver = d, FastestLap = fastest, AverageLap = fastest, Consistency = consistency,
      TotalLaps = n, Session = s\<rparr>"

definition grid :: "string \<Rightarrow> real \<Rightarrow> qualifying_row" where
  "grid d pos =
     \<lparr>q_Driver = d, QualifyingPosition = pos, Q1Time = None, Q2Time = None, Q3Time = None\<rparr>"

text \<open>Three drivers in one session, with their grid positions.\<close>

definition example_practice :: "session_summary list list" where
  "example_practice =
     [[practice_row ''A'' ''FP1'' (Some 90) (Some 0.2) 20,
       practice_row ''B'' ''FP1'' (Some 90.5) (Some 0.3) 20,
       practice_row ''C'' ''FP1'' (Some 91) (Some 0.1) 20]]"

definition example_scores :: "(string \<times> profile) list" where
  "example_scores =
     [(''A'', \<lparr>AvgFastestLap = 90, p_Consistency = 0.2, p_TotalLaps = 20, PracticeScore = - 20\<rparr>),
      (''B'', \<lparr>AvgFastestLap = 90.5, p_Consistency = 0.3, p_TotalLaps = 20, PracticeScore = 490\<rparr>),
      (''C'', \<lparr>AvgFastestLap = 91, p_Consistency = 0.1, p_TotalLaps = 20, PracticeScore = 970\<rparr>)]"

definition example_qualifying :: "qualifying_row list" where
  "example_qualifying = [grid ''B'' 1, grid ''A'' 2, grid ''C'' 3]"

definition example_ranking :: "final_row list" where
  "example_ranking =
     [\<lparr>f_Driver = ''A'', f_QualifyingPosition = 2, f_PracticeScore = - 20, FinalScore = 1.12,
       f_AvgFastestLap = 90, f_Consistency = 0.2\<rparr>,
      \<lparr>f_Driver = ''B'', f_QualifyingPosition = 1, f_PracticeScore = 490, FinalScore = 2.56,
       f_AvgFastestLap = 90.5, f_Consistency = 0.3\<rparr>,
      \<lparr>f_Driver = ''C'', f_QualifyingPosition = 3, f_PracticeScore = 970, FinalScore = 5.68,
       f_AvgFastestLap = 91, f_Consistency = 0.1\<rparr>]"

text \<open>Three sessions with missing values: B never sets a fastest lap, D has no consistency.\<close>

definition mixed_practice :: "session_summary list list" where
  "mixed_practice =
     [[practice_row ''A'' ''FP1'' (Some 90) (Some 0.2) 20,
       practice_row ''B'' ''FP1'' None None 3],
      [practice_row ''A'' ''FP2'' None (Some 0.4) 5],
      [practice_row ''A'' ''FP3'' (Some 91) None 1,
       practice_row ''D'' ''FP3'' (Some 92) None 1]]"

definition mixed_scores :: "(string \<times> profile) list" where
  "mixed_scores =
     [(''A'', \<lparr>AvgFastestLap = 90.7, p_Consistency = 0.3, p_TotalLaps = 26, PracticeScore = - 22\<rparr>),
      (''D'', \<lparr>AvgFastestLap = 92, p_Consistency = 10, p_TotalLaps = 1, PracticeScore = 2298\<rparr>)]"

text \<open>A single driver with zero consistency and 50 laps.\<close>

definition steady_practice :: "session_summary list list" where
  "steady_practice = [[practice_row ''A'' ''FP1'' (Some 90) (Some 0) 50]]"

text \<open>Shorthands for a lap record and a qualifying result.\<close>

definition one_lap :: "string \<Rightarrow> real \<Rightarrow> lap" where
  "one_lap d t = \<lparr>lap_Driver = d, LapTime = Some t\<rparr>"

definition classified :: "string \<Rightarrow> real \<Rightarrow> result_row" where
  "classified d pos = \<lparr>Abbreviation = d, Position = pos, Q1 = None, Q2 = None, Q3 = None\<rparr>"

text \<open>A weekend with one practice session and one driver.\<close>

definition single_provider :: provider where
  "single_provider year gp_name session_name =
     (if session_name = ''FP1'' then Inr (Inr \<lparr>laps = [one_lap ''A'' 90], results = []\<rparr>)
      else if session_name = ''Q'' then Inr (Inr \<lparr>laps = [], results = [classified ''A'' 1]\<rparr>)
      else Inl (OtherError ''no such session''))"

text \<open>A weekend with one practice session and three drivers.\<close>

definition podium_provider :: provider where
  "podium_provider year gp_name session_name =
     (if session_name = ''FP1'' then
        Inr (Inr \<lparr>laps = [one_lap ''A'' 90, one_lap ''B'' 91, one_lap ''C'' 92], results = []\<rparr>)
      else if session_name = ''Q'' then
        Inr (Inr \<lparr>laps = [],
                  results = [classified ''A'' 1, classified ''B'' 2, classified ''C'' 3]\<rparr>)
      else Inl (OtherError ''no such session''))"

text \<open>The rankings and the practice data of the two weekends.\<close>

definition podium_ranking :: "final_row list" where
  "podium_ranking =
     [\<lparr>f_Driver = ''A'', f_QualifyingPosition = 1, f_PracticeScore = 998, FinalScore = 4.592,
       f_AvgFastestLap = 90, f_Consistency = 10\<rparr>,
      \<lparr>f_Driver = ''B'', f_QualifyingPosition = 2, f_PracticeScore = 1998, FinalScore = 9.192,
       f_AvgFastestLap = 91, f_Consistency = 10\<rparr>,
      \<lparr>f_Driver = ''C'', f_QualifyingPosition = 3, f_PracticeScore = 2998, FinalScore = 13.792,
       f_AvgFastestLap = 92, f_Consistency = 10\<rparr>]"

definition single_ranking :: "final_row list" where
  "single_ranking =
     [\<lparr>f_Driver = ''A'', f_QualifyingPosition = 1, f_PracticeScore = 998, FinalScore = 4.592,
       f_AvgFastestLap = 90, f_Consistency = 10\<rparr>]"

definition single_practice :: "session_summary list list" where
  "single_practice =
     [[\<lparr>Driver = ''A'', FastestLap = Some 90, AverageLap = Some 90, Consistency = None,
        TotalLaps = 1, Session = ''FP1''\<rparr>]]"

definition podium_practice :: "session_summary list list" where
  "podium_practice =
     [[\<lparr>Driver = ''A'', FastestLap = Some 90, AverageLap = Some 90, Consistency = None,
        TotalLaps = 1, Session = ''FP1''\<rparr>,
       \<lparr>Driver = ''B'', FastestLap = Some 91, AverageLap = Some 91, Consistency = None,
        TotalLaps = 1, Session = ''FP1''\<rparr>,
       \<lparr>Driver = ''C'', FastestLap = Some 92, AverageLap = Some 92, Consistency = None,
        TotalLaps = 1, Session = ''FP1''\<rparr>]]"

definition podium_qualifying :: "qualifying_row list" where
  "podium_qualifying = [grid ''A'' 1, grid ''B'' 2, grid ''C'' 3]"

section \<open>The session summarizer\<close>

subsection \<open>Auxiliary facts\<close>

lemma set_unique_from: "set (unique_from seen xs) = set xs - set seen"
  by (induction xs arbitrary: seen) auto

lemma distinct_unique_from: "distinct (unique_from seen xs)"
  by (induction xs arbitrary: seen) (auto simp: set_unique_from)

lemma set_unique: "set (unique xs) = set xs"
  by (simp add: unique_def set_unique_from)

lemma distinct_unique: "distinct (unique xs)"
  by (simp add: unique_def distinct_unique_from)

lemma dropna_driver_laps:
  "dropna (map LapTime (filter (\<lambda>l. lap_Driver l = d) (filter (\<lambda>l. LapTime l \<noteq> None) lap_times)))
     = valid_durations lap_times d"
  by (induction lap_times) (auto simp: dropna_def valid_durations_def List.map_filter_simps)

lemma length_driver_laps:
  "length (filter (\<lambda>l. lap_Driver l = d) (filter (\<lambda>l. LapTime l \<noteq> None) lap_times))
     = length (valid_durations lap_times d)"
  by (induction lap_times) (auto simp: valid_durations_def)

lemma driver_row_eq:
  "driver_row s (filter (\<lambda>l. LapTime l \<noteq> None) lap_times) d =
     (if valid_durations lap_times d = [] then [] else [summary_of s lap_times d])"
  unfolding driver_row_def Let_def series_min_def series_mean_def series_std_def
    dropna_driver_laps length_driver_laps
  by (simp add: summary_of_def Let_def)

lemma valid_durations_Nil_iff:
  "valid_durations lap_times d = [] \<longleftrightarrow>
     d \<notin> lap_Driver ` {l \<in> set lap_times. LapTime l \<noteq> None}"
  by (auto simp: valid_durations_def filter_empty_conv)

lemma concat_map_singleton: "(\<forall>x \<in> set xs. f x = [g x]) \<Longrightarrow> concat (map f xs) = map g xs"
  by (induction xs) auto

lemma summarize_eq:
  "summarize s lap_times =
     map (summary_of s lap_times)
       (unique (map lap_Driver (filter (\<lambda>l. LapTime l \<noteq> None) lap_times)))"
proof -
  let ?valid = "filter (\<lambda>l. LapTime l \<noteq> None) lap_times"
  have *: "\<forall>d \<in> set (unique (map lap_Driver ?valid)).
             driver_row s ?valid d = [summary_of s lap_times d]"
  proof
    fix d assume "d \<in> set (unique (map lap_Driver ?valid))"
    then have "valid_durations lap_times d \<noteq> []"
      by (auto simp: set_unique valid_durations_Nil_iff)
    then show "driver_row s ?valid d = [summary_of s lap_times d]"
      by (simp only: driver_row_eq if_False)
  qed
  show ?thesis
    unfolding summarize_def Let_def by (rule concat_map_singleton [OF *])
qed

lemma Driver_summary_of [simp]: "Driver (summary_of s lap_times d) = d"
  by (simp add: summary_of_def Let_def)

lemma map_Driver_summarize:
  "map Driver (summarize s lap_times) =
     unique (map lap_Driver (filter (\<lambda>l. LapTime l \<noteq> None) lap_times))"
  by (simp add: summarize_eq o_def)

lemma in_summarize:
  assumes "row \<in> set (summarize s lap_times)"
  obtains d where "valid_durations lap_times d \<noteq> []" "row = summary_of s lap_times d"
    "Driver row = d"
  using assms by (auto simp: summarize_eq set_unique valid_durations_Nil_iff)

lemma Min_le_mean:
  fixes xs :: "real list"
  assumes "xs \<noteq> []"
  shows "Min (set xs) \<le> sum_list xs / real (length xs)"
proof -
  have "m * real (length ys) \<le> sum_list ys" if "\<forall>y \<in> set ys. m \<le> y" for m and ys :: "real list"
    using that by (induction ys) (auto simp: algebra_simps)
  then have "Min (set xs) * real (length xs) \<le> sum_list xs"
    by simp
  with assms show ?thesis
    by (simp add: pos_le_divide_eq)
qed


lemmas summarize_eval =
  summarize_def driver_row_def unique_def series_min_def series_mean_def series_std_def
  dropna_def List.map_filter_simps Let_def

lemma summarize_example:
  "summarize ''FP1'' example_laps =
     [\<lparr>Driver = ''A'', FastestLap = Some 88, AverageLap = Some 90, Consistency = Some 2,
       TotalLaps = 3, Session = ''FP1''\<rparr>,
      \<lparr>Driver = ''C'', FastestLap = Some 91, AverageLap = Some 91, Consistency = None,
       TotalLaps = 1, Session = ''FP1''\<rparr>]"
  by (simp add: example_laps_def summarize_eval)

subsection \<open>One row per driver and its contents\<close>

text \<open>
  Claim C7. On the lap records of a session, the summarizer discards the laps without a
  duration and returns exactly one row per driver that has at least one valid lap, so a
  driver without a valid lap has no row. The row holds the minimum of the driver's valid
  durations, their arithmetic mean, their number, and their sample standard deviation,
  which is missing when the driver has exactly one valid lap and is a non-negative number
  otherwise.
\<close>

theorem summarize_one_row_per_driver:
  "distinct (map Driver (summarize s lap_times)) \<and>
   set (map Driver (summarize s lap_times)) =
     {d. \<exists>l \<in> set lap_times. lap_Driver l = d \<and> LapTime l \<noteq> None} \<and>
   (\<forall>row \<in> set (summarize s lap_times).
      (let ts = valid_durations lap_times (Driver row);
           n = length ts;
           m = sum_list ts / real n
       in ts \<noteq> [] \<and>
          FastestLap row = Some (Min (set ts)) \<and>
          AverageLap row = Some m \<and>
          TotalLaps row = n \<and>
          (n = 1 \<longrightarrow> Consistency row = None) \<and>
          (n \<noteq> 1 \<longrightarrow>
             Consistency row = Some (sqrt (sum_list (map (\<lambda>x. (x - m)\<^sup>2) ts) / real (n - 1))) \<and>
             0 \<le> the (Consistency row))))"
proof (intro conjI ballI)
  show "distinct (map Driver (summarize s lap_times))"
    by (simp add: map_Driver_summarize distinct_unique)
  show "set (map Driver (summarize s lap_times)) =
     {d. \<exists>l \<in> set lap_times. lap_Driver l = d \<and> LapTime l \<noteq> None}"
    unfolding map_Driver_summarize set_unique by auto
next
  fix row assume "row \<in> set (summarize s lap_times)"
  then obtain d where ne: "valid_durations lap_times d \<noteq> []"
    and row: "row = summary_of s lap_times d" and d: "Driver row = d"
    by (rule in_summarize)
  define ts where "ts = valid_durations lap_times d"
  have len: "ts \<noteq> []" using ne by (simp add: ts_def)
  then have len1: "length ts < 2 \<longleftrightarrow> length ts = 1" by (cases ts) auto
  have nonneg: "0 \<le> sum_list (map (\<lambda>x. (x - m)\<^sup>2) ts) / real (length ts - 1)" for m
    by (intro divide_nonneg_nonneg sum_list_nonneg) auto
  have fields: "FastestLap row = Some (Min (set ts))"
    "AverageLap row = Some (sum_list ts / real (length ts))"
    "TotalLaps row = length ts"
    "Consistency row = (if length ts < 2 then None
        else Some (sqrt (sum_list (map (\<lambda>x. (x - sum_list ts / real (length ts))\<^sup>2) ts) / real (length ts - 1))))"
    unfolding row by (simp_all add: summary_of_def Let_def ts_def)
  show "let ts = valid_durations lap_times (Driver row);
           n = length ts;
           m = sum_list ts / real n
       in ts \<noteq> [] \<and>
          FastestLap row = Some (Min (set ts)) \<and>
          AverageLap row = Some m \<and>
          TotalLaps row = n \<and>
          (n = 1 \<longrightarrow> Consistency row = None) \<and>
          (n \<noteq> 1 \<longrightarrow>
             Consistency row = Some (sqrt (sum_list (map (\<lambda>x. (x - m)\<^sup>2) ts) / real (n - 1))) \<and>
             0 \<le> the (Consistency row))"
    unfolding Let_def d ts_def [symmetric] fields len1
    using len nonneg by simp
qed

theorem summarize_one_row_per_driver_witness:
  "summarize ''FP1'' example_laps =
     [\<lparr>Driver = ''A'', FastestLap = Some 88, AverageLap = Some 90, Consistency = Some 2,
       TotalLaps = 3, Session = ''FP1''\<rparr>,
      \<lparr>Driver = ''C'', FastestLap = Some 91, AverageLap = Some 91, Consistency = None,
       TotalLaps = 1, Session = ''FP1''\<rparr>] \<and>
   distinct (map Driver (summarize ''FP1'' example_laps)) \<and>
   map (\<lambda>row. length (valid_durations example_laps (Driver row)))
     (summarize ''FP1'' example_laps) = [3, 1]"
proof -
  note all_rows = summarize_one_row_per_driver [of "''FP1''" example_laps, unfolded Let_def]
  from all_rows have "distinct (map Driver (summarize ''FP1'' example_laps))"
    by (rule conjunct1)
  moreover from all_rows have "\<forall>row \<in> set (summarize ''FP1'' example_laps).
      TotalLaps row = length (valid_durations example_laps (Driver row))"
    by metis
  ultimately show ?thesis
    using summarize_example by simp
qed

subsection \<open>Fastest lap and average lap\<close>

lemma summary_of_in_summarize:
  assumes "valid_durations lap_times d \<noteq> []"
  shows "summary_of s lap_times d \<in> set (summarize s lap_times)"
proof -
  from assms have "d \<in> set (unique (map lap_Driver (filter (\<lambda>l. LapTime l \<noteq> None) lap_times)))"
    unfolding valid_durations_Nil_iff set_unique by auto
  then show ?thesis
    unfolding summarize_eq set_map by (rule imageI)
qed

text \<open>
  Claim C8. For every driver with a non-empty list of valid laps in a session, the
  summarizer outputs a row of that driver, and in every row of that driver the fastest lap
  is the minimum of the driver's valid durations, the average lap is their arithmetic
  mean, and the fastest lap is at most the average lap.
\<close>

theorem fastest_le_average:
  assumes "valid_durations lap_times d \<noteq> []"
  shows "(\<exists>row \<in> set (summarize s lap_times). Driver row = d) \<and>
         (\<forall>row \<in> set (summarize s lap_times). Driver row = d \<longrightarrow>
            (\<exists>f a. FastestLap row = Some f \<and> AverageLap row = Some a \<and> f \<le> a \<and>
               f = Min (set (valid_durations lap_times d)) \<and>
               a = sum_list (valid_durations lap_times d) /
                     real (length (valid_durations lap_times d))))"
proof (intro conjI ballI impI)
  from summary_of_in_summarize [OF assms, of s]
  show "\<exists>row \<in> set (summarize s lap_times). Driver row = d"
    by (rule bexI [rotated]) simp
next
  fix row
  assume mem: "row \<in> set (summarize s lap_times)" and d: "Driver row = d"
  from mem obtain d' where "row = summary_of s lap_times d'" and "Driver row = d'"
    by (rule in_summarize)
  with d have row: "row = summary_of s lap_times d"
    by simp
  have "FastestLap row = Some (Min (set (valid_durations lap_times d)))"
    "AverageLap row = Some (sum_list (valid_durations lap_times d) /
                 real (length (valid_durations lap_times d)))"
    unfolding row by (simp_all add: summary_of_def Let_def)
  with Min_le_mean [OF assms]
  show "\<exists>f a. FastestLap row = Some f \<and> AverageLap row = Some a \<and> f \<le> a \<and>
               f = Min (set (valid_durations lap_times d)) \<and>
               a = sum_list (valid_durations lap_times d) /
                     real (length (valid_durations lap_times d))"
    by simp
qed

theorem fastest_le_average_witness:
  "valid_durations example_laps ''A'' = [88, 90, 92] \<and>
   (\<exists>row \<in> set (summarize ''FP1'' example_laps). Driver row = ''A'') \<and>
   map FastestLap (filter (\<lambda>row. Driver row = ''A'') (summarize ''FP1'' example_laps)) =
     [Some 88] \<and>
   map AverageLap (filter (\<lambda>row. Driver row = ''A'') (summarize ''FP1'' example_laps)) =
     [Some (sum_list [88, 90, 92] / 3)] \<and>
   (88::real) \<le> sum_list [88, 90, 92] / 3"
proof -
  have A: "valid_durations example_laps ''A'' = [88, 90, 92]"
    by (simp add: example_laps_def valid_durations_def)
  then have "valid_durations example_laps ''A'' \<noteq> []"
    by simp
  from fastest_le_average [OF this, of "''FP1''"]
  have "\<exists>row \<in> set (summarize ''FP1'' example_laps). Driver row = ''A''"
    by (rule conjunct1)
  then show ?thesis
    using A by (simp add: summarize_example)
qed

section \<open>Errors of the external provider\<close>

text \<open>
  Claim C9. When the provider raises, in \<^verbatim>\<open>get_session\<close> or in \<^verbatim>\<open>load\<close>, the
  session summarizer and the qualifying extractor both catch the exception, print one
  diagnostic line and return the empty DataFrame; on every provider both functions
  return and never raise.
\<close>

theorem provider_errors_caught:
  "((fastf1 year gp_name session_name = Inl e \<or> fastf1 year gp_name session_name = Inr (Inl e)) \<longrightarrow>
      get_session_data fastf1 year gp_name session_name =
        Inr ([''Error loading '' @ session_name @ '': '' @ py_str e], [])) \<and>
   ((fastf1 year gp_name ''Q'' = Inl e' \<or> fastf1 year gp_name ''Q'' = Inr (Inl e')) \<longrightarrow>
      get_qualifying_positions fastf1 year gp_name =
        Inr ([''Error loading qualifying: '' @ py_str e'], [])) \<and>
   (\<exists>out df. get_session_data fastf1 year gp_name session_name = Inr (out, df)) \<and>
   (\<exists>out df. get_qualifying_positions fastf1 year gp_name = Inr (out, df))"
  by (auto simp: get_session_data_def get_qualifying_positions_def load_session_def
      split: sum.splits)

theorem provider_errors_caught_witness:
  "get_session_data failing_provider 2025 ''British Grand Prix'' ''FP1'' =
     Inr ([''Error loading FP1: no network''], []) \<and>
   get_qualifying_positions failing_provider 2025 ''British Grand Prix'' =
     Inr ([''Error loading qualifying: '' @ [CHR 0x27] @ ''Position'' @ [CHR 0x27]], [])"
  using provider_errors_caught [of failing_provider 2025 "''British Grand Prix''" "''FP1''"
      "OtherError ''no network''" "KeyError ''Position''"]
  by (simp add: failing_provider_def)

section \<open>The score aggregator\<close>

subsection \<open>The practice profiles in closed form\<close>

lemma session_weight_cases:
  "session_weight name =
     (if name = ''FP1'' then 0.15 else if name = ''FP2'' then 0.25
      else if name = ''FP3'' then 0.35 else if name = ''Sprint'' then 0.25 else 0.2)"
  by (simp add: session_weight_def session_weights_def)

lemma session_weight_pos: "0 < session_weight name"
  by (simp add: session_weight_cases)

lemma collect_fastest_eq:
  "collect_fastest rows (fl, ws) =
     (fl @ map (\<lambda>row. the (FastestLap row)) (filter (\<lambda>row. FastestLap row \<noteq> None) rows),
      ws @ map (\<lambda>row. session_weight (Session row)) (filter (\<lambda>row. FastestLap row \<noteq> None) rows))"
  by (induction rows arbitrary: fl ws) auto

lemma filter_driver_fastest:
  "filter (\<lambda>row. FastestLap row \<noteq> None) (filter (\<lambda>row. Driver row = d) all_practice)
     = fastest_rows all_practice d"
  by (induction all_practice) (auto simp: fastest_rows_def)

lemma sum_list_weights_pos:
  "rows \<noteq> [] \<Longrightarrow> 0 < sum_list (map (\<lambda>row. session_weight (Session row)) rows)"
proof (induction rows)
  case Nil
  then show ?case by simp
next
  case (Cons row rows)
  have "0 \<le> sum_list (map (\<lambda>row. session_weight (Session row)) rows)"
    by (rule sum_list_nonneg) (auto simp: less_imp_le session_weight_pos)
  with session_weight_pos [of "Session row"] show ?case by simp
qed

lemma np_average_rows:
  assumes "rows \<noteq> []"
  shows "np_average (map (\<lambda>row. the (FastestLap row)) rows)
           (map (\<lambda>row. session_weight (Session row)) rows) = Inr (weighted_average rows)"
proof -
  have "zip (map (\<lambda>row. the (FastestLap row)) rows) (map (\<lambda>row. session_weight (Session row)) rows)
          = map (\<lambda>row. (the (FastestLap row), session_weight (Session row))) rows"
    by (induction rows) auto
  moreover from sum_list_weights_pos [OF assms]
  have "sum_list (map (\<lambda>row. session_weight (Session row)) rows) \<noteq> 0" by simp
  ultimately show ?thesis
    by (simp add: np_average_def weighted_average_def o_def)
qed

lemma build_scores_step:
  "build_scores (driver # drivers) all_practice driver_scores =
     build_scores drivers all_practice
       (if fastest_rows all_practice driver \<noteq> []
        then AList.update driver (initial_profile all_practice driver) driver_scores
        else driver_scores)"
proof (cases "fastest_rows all_practice driver = []")
  case True
  then show ?thesis
    unfolding build_scores.simps Let_def collect_fastest_eq filter_driver_fastest by simp
next
  case False
  then show ?thesis
    unfolding build_scores.simps Let_def collect_fastest_eq filter_driver_fastest
    by (simp add: np_average_rows initial_profile_def)
qed

lemma build_scores_map_of:
  "\<exists>ds. build_scores drivers all_practice driver_scores = Inr ds \<and>
        map_of ds =
          (\<lambda>d. if d \<in> set drivers \<and> fastest_rows all_practice d \<noteq> []
               then Some (initial_profile all_practice d) else map_of driver_scores d)"
proof (induction drivers arbitrary: driver_scores)
  case Nil
  then show ?case by simp
next
  case (Cons driver drivers)
  show ?case
    unfolding build_scores_step
    using Cons.IH [of "if fastest_rows all_practice driver \<noteq> []
        then AList.update driver (initial_profile all_practice driver) driver_scores
        else driver_scores"]
    by (auto simp: update_conv' fun_eq_iff)
qed

lemma fastest_rows_Driver:
  "fastest_rows all_practice d \<noteq> [] \<Longrightarrow> d \<in> Driver ` set all_practice"
  by (auto simp: fastest_rows_def filter_empty_conv)

lemma build_scores_unique:
  "\<exists>ds. build_scores (unique (map Driver all_practice)) all_practice [] = Inr ds \<and>
        map_of ds =
          (\<lambda>d. if fastest_rows all_practice d \<noteq> []
               then Some (initial_profile all_practice d) else None)"
proof -
  obtain ds where ds: "build_scores (unique (map Driver all_practice)) all_practice [] = Inr ds"
    and m: "map_of ds =
          (\<lambda>d. if d \<in> set (unique (map Driver all_practice)) \<and> fastest_rows all_practice d \<noteq> []
               then Some (initial_profile all_practice d) else map_of [] d)"
    using build_scores_map_of [of "unique (map Driver all_practice)" all_practice "[]"] by blast
  have "map_of ds d = (if fastest_rows all_practice d \<noteq> []
               then Some (initial_profile all_practice d) else None)" for d
    using fastest_rows_Driver [of all_practice d] by (simp add: m set_unique)
  with ds show ?thesis by auto
qed

lemma fastest_overall_score_profiles:
  "fastest_overall (score_profiles ds) = fastest_overall ds"
proof -
  have "map (\<lambda>(driver, data). AvgFastestLap data) (score_profiles ds)
          = map (\<lambda>(driver, data). AvgFastestLap data) ds"
    by (simp add: score_profiles_def Let_def case_prod_beta o_def)
  then show ?thesis by (simp add: fastest_overall_def)
qed

lemma map_of_score_profiles:
  "map_of (score_profiles ds) d =
     map_option (\<lambda>data. data\<lparr>PracticeScore := practice_score (fastest_overall ds) data\<rparr>)
       (map_of ds d)"
proof (cases "ds = []")
  case True
  then show ?thesis by (simp add: score_profiles_def)
next
  case False
  then have "score_profiles ds =
      map (\<lambda>(driver, data).
             (driver, data\<lparr>PracticeScore := practice_score (fastest_overall ds) data\<rparr>)) ds"
    by (simp add: score_profiles_def fastest_overall_def Let_def)
  then show ?thesis by (simp add: map_of_map)
qed

lemma driver_scores_of_returns:
  "concat practice_data \<noteq> [] \<Longrightarrow> \<exists>ds. driver_scores_of practice_data = Inr ds"
  using build_scores_unique [of "concat practice_data"]
  by (auto simp: driver_scores_of_def Let_def)

lemma driver_scores_of_lookup:
  assumes "driver_scores_of practice_data = Inr ds"
  shows "map_of ds d =
     (if fastest_rows (concat practice_data) d \<noteq> []
      then Some ((initial_profile (concat practice_data) d)
                   \<lparr>PracticeScore :=
                      practice_score (fastest_overall ds) (initial_profile (concat practice_data) d)\<rparr>)
      else None)"
proof -
  obtain ds0 where ds0: "build_scores (unique (map Driver (concat practice_data))) (concat practice_data) [] = Inr ds0"
    and m: "map_of ds0 =
          (\<lambda>d. if fastest_rows (concat practice_data) d \<noteq> []
               then Some (initial_profile (concat practice_data) d) else None)"
    using build_scores_unique [of "concat practice_data"] by blast
  from assms ds0 have ds: "ds = score_profiles ds0"
    by (auto simp: driver_scores_of_def Let_def split: if_splits)
  show ?thesis
    unfolding ds map_of_score_profiles fastest_overall_score_profiles m by simp
qed

subsection \<open>The ranking in closed form\<close>

lemma final_scores_loop_eq:
  "final_scores_loop ds qualifying_data final_scores =
     final_scores @ concat (map (final_entry ds) qualifying_data)"
  by (induction qualifying_data arbitrary: final_scores)
    (auto simp: final_entry_def Let_def split: option.splits)

lemma calculate_prediction_score_Inr:
  "calculate_prediction_score practice_data qualifying_data = Inr ranking \<longleftrightarrow>
     (\<exists>ds. driver_scores_of practice_data = Inr ds \<and>
           concat (map (final_entry ds) qualifying_data) \<noteq> [] \<and>
           ranking = sort_key FinalScore (concat (map (final_entry ds) qualifying_data)))"
  by (auto simp: calculate_prediction_score_def sort_values_FinalScore_def final_scores_loop_eq
      split: sum.splits)

lemma in_final_entry:
  "row \<in> set (final_entry ds q) \<longleftrightarrow>
     (\<exists>data. map_of ds (q_Driver q) = Some data \<and>
        row = \<lparr>f_Driver = q_Driver q,
            f_QualifyingPosition = QualifyingPosition q,
            f_PracticeScore = PracticeScore data,
            FinalScore = QualifyingPosition q * 0.6 + PracticeScore data * 0.4 / 100,
            f_AvgFastestLap = AvgFastestLap data,
            f_Consistency = p_Consistency data\<rparr>)"
  by (cases "map_of ds (q_Driver q)") (auto simp: final_entry_def)

lemma sorted_hd_le:
  fixes xs :: "real list"
  shows "sorted xs \<Longrightarrow> x \<in> set xs \<Longrightarrow> hd xs \<le> x"
  by (cases xs) auto

lemma calculate_prediction_score_nonempty:
  assumes "calculate_prediction_score practice_data qualifying_data = Inr ranking"
  shows "practice_data \<noteq> []" and "qualifying_data \<noteq> []" and "ranking \<noteq> []"
proof -
  from assms obtain ds where ds: "driver_scores_of practice_data = Inr ds"
    and ne: "concat (map (final_entry ds) qualifying_data) \<noteq> []"
    and r: "ranking = sort_key FinalScore (concat (map (final_entry ds) qualifying_data))"
    unfolding calculate_prediction_score_Inr by blast
  from ds show "practice_data \<noteq> []"
    by (auto simp: driver_scores_of_def)
  from ne show "qualifying_data \<noteq> []"
    by auto
  have "length ranking = length (concat (map (final_entry ds) qualifying_data))"
    unfolding r by (rule length_sort)
  with ne show "ranking \<noteq> []"
    by (simp only: length_0_conv [symmetric] simp_thms)
qed

subsection \<open>The aggregator on the concrete inputs\<close>

lemmas scores_eval =
  driver_scores_of_def unique_def np_average_def session_weight_def session_weights_def
  avg_consistency_of_def np_mean_def score_profiles_def practice_score_def practice_row_def
  Let_def

lemma example_scores_eval: "driver_scores_of example_practice = Inr example_scores"
  by (simp add: example_practice_def example_scores_def scores_eval del: not_None_eq)

lemma mixed_scores_eval: "driver_scores_of mixed_practice = Inr mixed_scores"
  by (simp add: mixed_practice_def mixed_scores_def scores_eval del: not_None_eq)

lemma steady_scores_eval:
  "driver_scores_of steady_practice =
     Inr [(''A'', \<lparr>AvgFastestLap = 90, p_Consistency = 0, p_TotalLaps = 50, PracticeScore = 400\<rparr>)]"
  by (simp add: steady_practice_def scores_eval del: not_None_eq)

lemma example_ranking_eval:
  "calculate_prediction_score example_practice example_qualifying = Inr example_ranking"
  by (simp add: calculate_prediction_score_def example_scores_eval)
    (simp add: example_scores_def example_qualifying_def example_ranking_def grid_def
      sort_values_FinalScore_def)

subsection \<open>Final score and order of the ranking\<close>

text \<open>
  Claim C1. When some driver of the qualifying data has a practice profile, the aggregator
  returns a ranking. Every row of it has
  \<open>final_score = grid_position \<times> 0.6 + practice_score \<times> 0.4 / 100\<close>, every driver
  present on both sides has a row built from its grid position and the practice score of
  its profile, the rows are in ascending order of the final score, and the first row has
  the lowest final score.
\<close>

theorem final_score_ranking:
  assumes "driver_scores_of practice_data = Inr driver_scores"
    and "q \<in> set qualifying_data"
    and "map_of driver_scores (q_Driver q) = Some data"
  shows "\<exists>ranking.
           calculate_prediction_score practice_data qualifying_data = Inr ranking \<and>
           sorted (map FinalScore ranking) \<and>
           (\<forall>row \<in> set ranking. FinalScore (hd ranking) \<le> FinalScore row) \<and>
           (\<forall>row \<in> set ranking.
              FinalScore row = f_QualifyingPosition row * 0.6 + f_PracticeScore row * 0.4 / 100) \<and>
           (\<exists>row \<in> set ranking.
              f_Driver row = q_Driver q \<and>
              f_QualifyingPosition row = QualifyingPosition q \<and>
              f_PracticeScore row = PracticeScore data \<and>
              FinalScore row = QualifyingPosition q * 0.6 + PracticeScore data * 0.4 / 100)"
proof -
  let ?final = "concat (map (final_entry driver_scores) qualifying_data)"
  let ?ranking = "sort_key FinalScore ?final"
  let ?row = "\<lparr>f_Driver = q_Driver q,
            f_QualifyingPosition = QualifyingPosition q,
            f_PracticeScore = PracticeScore data,
            FinalScore = QualifyingPosition q * 0.6 + PracticeScore data * 0.4 / 100,
            f_AvgFastestLap = AvgFastestLap data,
            f_Consistency = p_Consistency data\<rparr>"
  from assms(3) have "?row \<in> set (final_entry driver_scores q)"
    by (simp only: in_final_entry) blast
  with assms(2) have row: "?row \<in> set ?final" by auto
  from length_pos_if_in_set [OF row] have "?final \<noteq> []"
    by (simp only: length_greater_0_conv simp_thms)
  with assms(1) have ret: "calculate_prediction_score practice_data qualifying_data = Inr ?ranking"
    by (simp only: calculate_prediction_score_Inr) blast
  have srt: "sorted (map FinalScore ?ranking)"
    by (rule sorted_sort_key)
  have least: "\<forall>row \<in> set ?ranking. FinalScore (hd ?ranking) \<le> FinalScore row"
  proof
    fix row assume "row \<in> set ?ranking"
    then have "FinalScore row \<in> FinalScore ` set ?ranking"
      by (rule imageI)
    then have "FinalScore row \<in> set (map FinalScore ?ranking)"
      by (simp only: set_map)
    moreover from length_pos_if_in_set [OF \<open>row \<in> set ?ranking\<close>] have "?ranking \<noteq> []"
      by (simp only: length_greater_0_conv simp_thms)
    ultimately show "FinalScore (hd ?ranking) \<le> FinalScore row"
      using sorted_hd_le [OF srt] by (simp add: hd_map)
  qed
  have formula: "\<forall>row \<in> set ?ranking.
      FinalScore row = f_QualifyingPosition row * 0.6 + f_PracticeScore row * 0.4 / 100"
    by (auto simp: in_final_entry)
  have present: "\<exists>row \<in> set ?ranking.
              f_Driver row = q_Driver q \<and>
              f_QualifyingPosition row = QualifyingPosition q \<and>
              f_PracticeScore row = PracticeScore data \<and>
              FinalScore row = QualifyingPosition q * 0.6 + PracticeScore data * 0.4 / 100"
    using row by (intro bexI [where x = ?row]) simp_all
  from ret srt least formula present show ?thesis by blast
qed

theorem final_score_ranking_witness:
  "calculate_prediction_score example_practice example_qualifying = Inr example_ranking \<and>
   map FinalScore example_ranking = [1.12, 2.56, 5.68] \<and>
   sorted (map FinalScore example_ranking) \<and>
   map f_Driver example_ranking = [''A'', ''B'', ''C'']"
proof -
  have "grid ''A'' 2 \<in> set example_qualifying"
    by (simp add: example_qualifying_def)
  moreover have "map_of example_scores (q_Driver (grid ''A'' 2)) =
      Some \<lparr>AvgFastestLap = 90, p_Consistency = 0.2, p_TotalLaps = 20, PracticeScore = - 20\<rparr>"
    by (simp add: example_scores_def grid_def)
  ultimately obtain ranking where
    r: "calculate_prediction_score example_practice example_qualifying = Inr ranking"
    and s: "sorted (map FinalScore ranking)"
    using final_score_ranking [OF example_scores_eval] by blast
  from r have "ranking = example_ranking"
    by (simp add: example_ranking_eval)
  with s have "sorted (map FinalScore example_ranking)"
    by simp
  moreover have "map FinalScore example_ranking = [1.12, 2.56, 5.68]"
    "map f_Driver example_ranking = [''A'', ''B'', ''C'']"
    by (simp_all add: example_ranking_def)
  ultimately show ?thesis
    using example_ranking_eval by simp
qed

subsection \<open>Weighted average of the fastest laps\<close>

text \<open>
  Claim C2. A driver with at least one session whose fastest lap is defined gets a
  profile, and its average fastest lap is the sum of time times weight divided by the sum
  of the weights, over the sessions of the driver where the fastest lap is defined. A
  driver without a defined fastest lap in any session has no profile and no row in any
  ranking.
\<close>

theorem weighted_average_fastest_lap:
  "(fastest_rows (concat practice_data) d \<noteq> [] \<longrightarrow>
      (\<exists>driver_scores data.
         driver_scores_of practice_data = Inr driver_scores \<and>
         map_of driver_scores d = Some data \<and>
         AvgFastestLap data =
           sum_list (map (\<lambda>row. the (FastestLap row) * session_weight (Session row))
                      (fastest_rows (concat practice_data) d)) /
           sum_list (map (\<lambda>row. session_weight (Session row))
                      (fastest_rows (concat practice_data) d)))) \<and>
   (fastest_rows (concat practice_data) d = [] \<longrightarrow>
      (\<forall>driver_scores. driver_scores_of practice_data = Inr driver_scores
         \<longrightarrow> map_of driver_scores d = None) \<and>
      (\<forall>ranking. calculate_prediction_score practice_data qualifying_data = Inr ranking
         \<longrightarrow> d \<notin> f_Driver ` set ranking))"
proof (intro conjI impI allI)
  assume some: "fastest_rows (concat practice_data) d \<noteq> []"
  have "concat practice_data \<noteq> []"
  proof
    assume "concat practice_data = []"
    then have "fastest_rows (concat practice_data) d = []"
      by (simp only: fastest_rows_def filter.simps)
    with some show False by contradiction
  qed
  then obtain driver_scores where ds: "driver_scores_of practice_data = Inr driver_scores"
    using driver_scores_of_returns by blast
  from some have "map_of driver_scores d =
      Some ((initial_profile (concat practice_data) d)
              \<lparr>PracticeScore :=
                 practice_score (fastest_overall driver_scores)
                   (initial_profile (concat practice_data) d)\<rparr>)"
    by (simp add: driver_scores_of_lookup [OF ds])
  with ds show "\<exists>driver_scores data.
         driver_scores_of practice_data = Inr driver_scores \<and>
         map_of driver_scores d = Some data \<and>
         AvgFastestLap data =
           sum_list (map (\<lambda>row. the (FastestLap row) * session_weight (Session row))
                      (fastest_rows (concat practice_data) d)) /
           sum_list (map (\<lambda>row. session_weight (Session row))
                      (fastest_rows (concat practice_data) d))"
    by (simp add: initial_profile_def weighted_average_def)
next
  fix driver_scores
  assume "fastest_rows (concat practice_data) d = []"
    and "driver_scores_of practice_data = Inr driver_scores"
  then show "map_of driver_scores d = None"
    by (simp add: driver_scores_of_lookup)
next
  fix ranking
  assume none: "fastest_rows (concat practice_data) d = []"
    and ret: "calculate_prediction_score practice_data qualifying_data = Inr ranking"
  show "d \<notin> f_Driver ` set ranking"
  proof
    assume "d \<in> f_Driver ` set ranking"
    then obtain row where row: "row \<in> set ranking" "f_Driver row = d"
      by blast
    from ret obtain ds where ds: "driver_scores_of practice_data = Inr ds"
      and r: "ranking = sort_key FinalScore (concat (map (final_entry ds) qualifying_data))"
      unfolding calculate_prediction_score_Inr by blast
    from row(1) obtain q where "row \<in> set (final_entry ds q)"
      unfolding r by auto
    with row(2) have "map_of ds d \<noteq> None"
      by (auto simp: in_final_entry)
    with none show False
      by (simp add: driver_scores_of_lookup [OF ds])
  qed
qed

theorem weighted_average_fastest_lap_witness:
  "driver_scores_of mixed_practice = Inr mixed_scores \<and>
   fastest_rows (concat mixed_practice) ''A'' =
     [practice_row ''A'' ''FP1'' (Some 90) (Some 0.2) 20,
      practice_row ''A'' ''FP3'' (Some 91) None 1] \<and>
   map_option AvgFastestLap (map_of mixed_scores ''A'') =
     Some ((90 * 0.15 + 91 * 0.35) / (0.15 + 0.35)) \<and>
   fastest_rows (concat mixed_practice) ''B'' = [] \<and>
   map_of mixed_scores ''B'' = None"
proof -
  have A: "fastest_rows (concat mixed_practice) ''A'' =
     [practice_row ''A'' ''FP1'' (Some 90) (Some 0.2) 20,
      practice_row ''A'' ''FP3'' (Some 91) None 1]"
    by (simp add: mixed_practice_def fastest_rows_def practice_row_def del: not_None_eq)
  have B: "fastest_rows (concat mixed_practice) ''B'' = []"
    by (simp add: mixed_practice_def fastest_rows_def practice_row_def del: not_None_eq)
  from weighted_average_fastest_lap [of mixed_practice "''B''" "[]"] B mixed_scores_eval
  have "map_of mixed_scores ''B'' = None"
    by simp
  moreover
  from weighted_average_fastest_lap [of mixed_practice "''A''" "[]"] A mixed_scores_eval
  have "\<exists>data. map_of mixed_scores ''A'' = Some data \<and>
          AvgFastestLap data = (90 * 0.15 + 91 * 0.35) / (0.15 + 0.35)"
    by (simp add: practice_row_def session_weight_cases)
  then have "map_option AvgFastestLap (map_of mixed_scores ''A'') =
     Some ((90 * 0.15 + 91 * 0.35) / (0.15 + 0.35))"
    by auto
  ultimately show ?thesis
    using A B mixed_scores_eval by simp
qed

subsection \<open>Session weights\<close>

text \<open>
  Claim C3, as amended. The weight of a session is 0.15 for FP1, 0.25 for FP2, 0.35 for
  FP3, 0.25 for the session named Sprint, and 0.2 for every other session name.
\<close>

theorem session_weight_table:
  "session_weight ''FP1'' = 0.15 \<and>
   session_weight ''FP2'' = 0.25 \<and>
   session_weight ''FP3'' = 0.35 \<and>
   session_weight ''Sprint'' = 0.25 \<and>
   (name \<notin> {''FP1'', ''FP2'', ''FP3'', ''Sprint''} \<longrightarrow> session_weight name = 0.2)"
  by (simp add: session_weight_cases)

theorem session_weight_table_witness:
  "session_weight ''Sprint Qualifying'' = 0.2 \<and> session_weight ''Sprint'' = 0.25"
  using session_weight_table [of "''Sprint Qualifying''"] by simp

text \<open>
  Claim C3 as stated gives 0.25 to any unrecognized session name. The name
  \<^verbatim>\<open>Sprint Qualifying\<close> is not a key of the table, and its weight is not 0.25.
\<close>

theorem unrecognized_session_weight_counterexample:
  "map_of session_weights ''Sprint Qualifying'' = None \<and>
   session_weight ''Sprint Qualifying'' \<noteq> 0.25"
  by (simp add: session_weight_def session_weights_def)

subsection \<open>Practice score\<close>

text \<open>
  Claim C4, as amended. For every driver profile the practice score is the lap time score
  plus the consistency score minus 100 times the reliability score, where the consistency
  score is the consistency times 100 when the consistency is not zero and 500 when it is
  zero. In particular a driver whose average fastest lap is the fastest overall, whose
  consistency is exactly zero and who has at least 50 laps has the practice score
  \<open>0 + 500 - 100 = 400\<close>.
\<close>

theorem practice_score_formula:
  assumes "driver_scores_of practice_data = Inr driver_scores"
    and "map_of driver_scores d = Some data"
  shows "PracticeScore data =
           (AvgFastestLap data - fastest_overall driver_scores) * 1000 +
           (if p_Consistency data = 0 then 500 else p_Consistency data * 100) -
           min (real (p_TotalLaps data) / 50) 1 * 100 \<and>
         (AvgFastestLap data = fastest_overall driver_scores \<and> p_Consistency data = 0 \<and>
          50 \<le> p_TotalLaps data \<longrightarrow> PracticeScore data = 400)"
proof -
  let ?p = "initial_profile (concat practice_data) d"
  from assms have data: "data = ?p\<lparr>PracticeScore := practice_score (fastest_overall driver_scores) ?p\<rparr>"
    by (simp add: driver_scores_of_lookup [OF assms(1)] split: if_splits)
  have 1: "PracticeScore data =
           (AvgFastestLap data - fastest_overall driver_scores) * 1000 +
           (if p_Consistency data = 0 then 500 else p_Consistency data * 100) -
           min (real (p_TotalLaps data) / 50) 1 * 100"
    by (subst (1 2 3 4 5) data) (simp add: practice_score_def Let_def)
  have "min (real (p_TotalLaps data) / 50) 1 = 1" if "50 \<le> p_TotalLaps data"
    using that by (simp add: min_def)
  with 1 show ?thesis by simp
qed

theorem practice_score_formula_witness:
  "driver_scores_of steady_practice =
     Inr [(''A'', \<lparr>AvgFastestLap = 90, p_Consistency = 0, p_TotalLaps = 50, PracticeScore = 400\<rparr>)] \<and>
   fastest_overall
     [(''A'', \<lparr>AvgFastestLap = 90, p_Consistency = 0, p_TotalLaps = 50, PracticeScore = 400\<rparr>)] = 90 \<and>
   (400::real) = (90 - 90) * 1000 + 500 - min (real 50 / 50) 1 * 100"
  using practice_score_formula [OF steady_scores_eval, of "''A''"
      "\<lparr>AvgFastestLap = 90, p_Consistency = 0, p_TotalLaps = 50, PracticeScore = 400\<rparr>"]
  by (simp add: steady_scores_eval fastest_overall_def)

text \<open>
  Claim C4 as stated says that the branch for a falsy consistency cannot be taken and that
  such a driver scores -100. Two equal laps have the standard deviation 0, the mean of
  zero consistencies is 0 and not the default 10.0, and the driver scores 400.
\<close>

theorem zero_consistency_counterexample:
  "series_std [Some 90, Some 90] = Some 0 \<and>
   driver_scores_of [[practice_row ''A'' ''FP1'' (Some 90) (Some 0) 50]] =
     Inr [(''A'', \<lparr>AvgFastestLap = 90, p_Consistency = 0, p_TotalLaps = 50, PracticeScore = 400\<rparr>)] \<and>
   practice_score 90 \<lparr>AvgFastestLap = 90, p_Consistency = 0, p_TotalLaps = 50, PracticeScore = 0\<rparr>
     \<noteq> - 100"
  by (simp add: scores_eval series_std_def dropna_def List.map_filter_simps del: not_None_eq)

subsection \<open>No driver on both sides\<close>

text \<open>
  Claim C5 says that the aggregator yields an empty ranking when the qualifying data is
  empty or shares no driver with the practice profiles. On such inputs
  \<^verbatim>\<open>final_scores\<close> is empty, and the call of \<^verbatim>\<open>sort_values\<close> in line 139 raises
  KeyError instead of returning; the caller's test \<^verbatim>\<open>predictions.empty\<close> is never reached.
\<close>

theorem no_common_driver_raises:
  "driver_scores_of example_practice = Inr example_scores \<and>
   calculate_prediction_score example_practice [grid ''D'' 1] = Inl (KeyError ''FinalScore'') \<and>
   calculate_prediction_score example_practice [] = Inl (KeyError ''FinalScore'')"
  by (simp add: calculate_prediction_score_def example_scores_eval)
    (simp add: example_scores_def grid_def sort_values_FinalScore_def)

subsection \<open>Average consistency\<close>

text \<open>
  Claim C6. The consistency of every driver profile is the arithmetic mean of the defined
  consistency values of the driver's sessions, and the constant 10.0 when no session of
  the driver has a defined consistency.
\<close>

theorem average_consistency:
  assumes "driver_scores_of practice_data = Inr driver_scores"
    and "map_of driver_scores d = Some data"
  shows "p_Consistency data =
           (let cs = map (\<lambda>row. the (Consistency row))
                       (filter (\<lambda>row. Driver row = d \<and> Consistency row \<noteq> None)
                          (concat practice_data))
            in if cs = [] then 10 else sum_list cs / real (length cs))"
proof -
  let ?p = "initial_profile (concat practice_data) d"
  from assms have "data = ?p\<lparr>PracticeScore := practice_score (fastest_overall driver_scores) ?p\<rparr>"
    by (simp add: driver_scores_of_lookup [OF assms(1)] split: if_splits)
  then have "p_Consistency data = avg_consistency_of (filter (\<lambda>row. Driver row = d) (concat practice_data))"
    by (simp add: initial_profile_def)
  then show ?thesis
    by (simp add: avg_consistency_of_def np_mean_def Let_def del: not_None_eq)
qed

theorem average_consistency_witness:
  "driver_scores_of mixed_practice = Inr mixed_scores \<and>
   map p_Consistency (map snd mixed_scores) = [(0.2 + 0.4) / 2, 10]"
proof -
  have "map_of mixed_scores ''A'' =
      Some \<lparr>AvgFastestLap = 90.7, p_Consistency = 0.3, p_TotalLaps = 26, PracticeScore = - 22\<rparr>"
    "map_of mixed_scores ''D'' =
      Some \<lparr>AvgFastestLap = 92, p_Consistency = 10, p_TotalLaps = 1, PracticeScore = 2298\<rparr>"
    by (simp_all add: mixed_scores_def)
  from this [THEN average_consistency [OF mixed_scores_eval]]
  have "(0.3::real) = (0.2 + 0.4) / 2" "(10::real) = 10"
    by (simp_all add: mixed_practice_def practice_row_def Let_def del: not_None_eq)
  then show ?thesis
    using mixed_scores_eval by (simp add: mixed_scores_def)
qed

section \<open>The report of \<^verbatim>\<open>predict_race_winner\<close>\<close>

lemma report_short:
  "length predictions = 1 \<or> length predictions = 2 \<Longrightarrow>
     report predictions practice_data =
       Inl (IndexError ''single positional indexer is out-of-bounds'')"
  by (auto simp: report_def iloc_def)

lemma report_Inr:
  "report predictions practice_data = Inr r \<Longrightarrow> r = Some predictions \<and> 3 \<le> length predictions"
  by (auto simp: report_def iloc_def split: sum.splits if_splits)

text \<open>
  Claim C10. \<^verbatim>\<open>predict_race_winner\<close> returns a ranking only when the ranking has at least
  three rows: after the test for an empty ranking it reads the rows at positions 1 and 2,
  so a run whose ranking has exactly one or two rows raises IndexError and returns nothing.
\<close>

theorem report_reads_three_rows:
  "(predict_race_winner fastf1 = Inr (Some ranking) \<longrightarrow> 3 \<le> length ranking) \<and>
   (find_gp_name fastf1 2025 [''British Grand Prix''] = Some gp_name \<and>
    load_practice fastf1 2025 gp_name [''FP1'', ''FP2'', ''FP3''] [] = Inr practice_data \<and>
    get_qualifying_positions fastf1 2025 gp_name = Inr (out, qualifying_data) \<and>
    calculate_prediction_score practice_data qualifying_data = Inr predictions \<and>
    (length predictions = 1 \<or> length predictions = 2) \<longrightarrow>
    predict_race_winner fastf1 =
      Inl (IndexError ''single positional indexer is out-of-bounds''))"
proof (intro conjI impI)
  assume "predict_race_winner fastf1 = Inr (Some ranking)"
  then obtain predictions practice_data
    where "report predictions practice_data = Inr (Some ranking)"
    by (auto simp: predict_race_winner_def Let_def
        split: option.splits sum.splits prod.splits if_splits)
  from report_Inr [OF this] show "3 \<le> length ranking" by simp
next
  assume h: "find_gp_name fastf1 2025 [''British Grand Prix''] = Some gp_name \<and>
    load_practice fastf1 2025 gp_name [''FP1'', ''FP2'', ''FP3''] [] = Inr practice_data \<and>
    get_qualifying_positions fastf1 2025 gp_name = Inr (out, qualifying_data) \<and>
    calculate_prediction_score practice_data qualifying_data = Inr predictions \<and>
    (length predictions = 1 \<or> length predictions = 2)"
  then have calc: "calculate_prediction_score practice_data qualifying_data = Inr predictions"
    by simp
  note ne = calculate_prediction_score_nonempty [OF calc]
  from h have "report predictions practice_data =
      Inl (IndexError ''single positional indexer is out-of-bounds'')"
    by (intro report_short) simp
  moreover from h have "gp_name \<noteq> []"
    by (auto split: sum.splits)
  ultimately show "predict_race_winner fastf1 =
      Inl (IndexError ''single positional indexer is out-of-bounds'')"
    using h ne by (simp add: predict_race_winner_def Let_def)
qed

lemmas run_eval =
  get_session_data_def get_qualifying_positions_def load_session_def qual_dict_def
  one_lap_def classified_def

lemma single_practice_eval:
  "load_practice single_provider 2025 ''British Grand Prix'' [''FP1'', ''FP2'', ''FP3''] [] =
     Inr single_practice"
  by (simp add: single_provider_def single_practice_def run_eval summarize_eval del: not_None_eq)

lemma single_qualifying_eval:
  "get_qualifying_positions single_provider 2025 ''British Grand Prix'' = Inr ([], [grid ''A'' 1])"
  by (simp add: single_provider_def run_eval grid_def)

lemma single_ranking_eval:
  "calculate_prediction_score
     single_practice [grid ''A'' 1] = Inr single_ranking"
  by (simp add: calculate_prediction_score_def scores_eval grid_def single_ranking_def single_practice_def
      sort_values_FinalScore_def del: not_None_eq)

lemma podium_practice_eval:
  "load_practice podium_provider 2025 ''British Grand Prix'' [''FP1'', ''FP2'', ''FP3''] [] =
     Inr podium_practice"
  by (simp add: podium_provider_def podium_practice_def run_eval summarize_eval del: not_None_eq)

lemma podium_qualifying_eval:
  "get_qualifying_positions podium_provider 2025 ''British Grand Prix'' =
     Inr ([], podium_qualifying)"
  by (simp add: podium_provider_def podium_qualifying_def run_eval grid_def)

lemma podium_ranking_eval:
  "calculate_prediction_score
     podium_practice
     podium_qualifying = Inr podium_ranking"
  by (simp add: calculate_prediction_score_def scores_eval grid_def podium_ranking_def podium_practice_def podium_qualifying_def
      sort_values_FinalScore_def del: not_None_eq)

lemma podium_run_eval: "predict_race_winner podium_provider = Inr (Some podium_ranking)"
proof -
  have gp: "find_gp_name podium_provider 2025 [''British Grand Prix''] = Some ''British Grand Prix''"
    by (simp add: podium_provider_def)
  have ne: "podium_ranking \<noteq> []" "podium_practice \<noteq> []" "podium_qualifying \<noteq> []"
    by (simp_all add: podium_ranking_def podium_practice_def podium_qualifying_def)
  have rep: "report podium_ranking podium_practice = Inr (Some podium_ranking)"
    by (simp add: report_def iloc_def podium_ranking_def podium_practice_def)
  show ?thesis
    by (simp add: predict_race_winner_def gp podium_practice_eval podium_qualifying_eval
        podium_ranking_eval ne rep del: load_practice.simps find_gp_name.simps)
qed

theorem report_reads_three_rows_witness:
  "predict_race_winner podium_provider = Inr (Some podium_ranking) \<and>
   length podium_ranking = 3 \<and>
   calculate_prediction_score
     single_practice [grid ''A'' 1] = Inr single_ranking \<and>
   length single_ranking = 1 \<and>
   predict_race_winner single_provider =
     Inl (IndexError ''single positional indexer is out-of-bounds'')"
proof -
  have gp: "find_gp_name single_provider 2025 [''British Grand Prix''] = Some ''British Grand Prix''"
    by (simp add: single_provider_def)
  have len: "length single_ranking = 1" "length podium_ranking = 3"
    by (simp_all add: single_ranking_def podium_ranking_def)
  from report_reads_three_rows [of single_provider podium_ranking "''British Grand Prix''"
      single_practice "[]" "[grid ''A'' 1]" single_ranking]
  have "predict_race_winner single_provider =
     Inl (IndexError ''single positional indexer is out-of-bounds'')"
    using gp single_practice_eval single_qualifying_eval single_ranking_eval len by blast
  then show ?thesis
    using podium_run_eval single_ranking_eval len by simp
qed

end
